theory Spec2Isabelle
  imports Main "HOL-Library.Sublist"
begin

section \<open>Python values and exceptions\<close>

text \<open>
  The client of \<^verbatim>\<open>src/pdfdeal/Doc2X/ConvertV2.py\<close> works on decoded JSON: dictionaries,
  lists, strings and numbers, read with \<^verbatim>\<open>d[k]\<close>, \<^verbatim>\<open>d.get(k, default)\<close> and \<^verbatim>\<open>k in d\<close>.
  A dictionary is an association list read with \<open>map_of\<close>; a float is kept as its literal.
  Strings are byte strings: every character the code looks for is ASCII, and no byte of a
  multi-byte UTF-8 sequence is an ASCII byte, so byte-wise and code-point-wise rewriting agree.
\<close>

datatype json =
    JNull
  | JBool bool
  | JInt int
  | JFloat string
  | JStr string
  | JList "json list"
  | JObj "(string \<times> json) list"

text \<open>The pieces of an f-string: literal text, a number, \<^verbatim>\<open>str\<close> of a value, and the text
  of a caught exception (\<^verbatim>\<open>{e}\<close>).\<close>

datatype fmt = Lit string | Num nat | Val json | Cause

text \<open>
  The exceptions the module raises (\<^verbatim>\<open>RateLimit\<close>, \<^verbatim>\<open>FileError\<close>, \<^verbatim>\<open>RequestError\<close>,
  \<^verbatim>\<open>ValueError\<close>, plain \<^verbatim>\<open>Exception\<close>), the \<^verbatim>\<open>RuntimeError\<close> of the older client in
  \<^verbatim>\<open>src/pdfdeal/doc2x.py\<close>, the ones Python and the HTTP library raise under them, and the
  error of the retry policy when its attempts are used up.
\<close>

datatype error =
    RateLimit
  | FileError "fmt list"
  | RequestError "fmt list"
  | ValueError string
  | Exception "fmt list"
  | RuntimeError "fmt list"
  | KeyError string
  | TypeError
  | AttributeError
  | OSError
  | JSONDecodeError
  | TransportError
  | RetryExhausted

definition and_then :: "error + 'a \<Rightarrow> ('a \<Rightarrow> error + 'b) \<Rightarrow> error + 'b" where
  "and_then m f = (case m of Inl e \<Rightarrow> Inl e | Inr v \<Rightarrow> f v)"

text \<open>\<^verbatim>\<open>d.get(k)\<close>: only a dictionary has \<^verbatim>\<open>get\<close>.\<close>

definition py_get_opt :: "json \<Rightarrow> string \<Rightarrow> error + json option" where
  "py_get_opt d k = (case d of JObj kvs \<Rightarrow> Inr (map_of kvs k) | _ \<Rightarrow> Inl AttributeError)"

definition py_get :: "json \<Rightarrow> string \<Rightarrow> json \<Rightarrow> error + json" where
  "py_get d k dflt =
     and_then (py_get_opt d k) (\<lambda>r. Inr (case r of Some v \<Rightarrow> v | None \<Rightarrow> dflt))"

text \<open>\<^verbatim>\<open>d[k]\<close> with a string key: \<^verbatim>\<open>KeyError\<close> on a dictionary without the key,
  \<^verbatim>\<open>TypeError\<close> on a list, a string, a number or \<^verbatim>\<open>None\<close>.\<close>

definition py_getitem :: "json \<Rightarrow> string \<Rightarrow> error + json" where
  "py_getitem d k =
     (case d of
        JObj kvs \<Rightarrow> (case map_of kvs k of Some v \<Rightarrow> Inr v | None \<Rightarrow> Inl (KeyError k))
      | _ \<Rightarrow> Inl TypeError)"

text \<open>\<^verbatim>\<open>k in d\<close> with a string \<open>k\<close>: a key of a dictionary, an element of a list, a
  substring of a string; \<^verbatim>\<open>TypeError\<close> on a number, a boolean or \<^verbatim>\<open>None\<close>.\<close>

definition py_contains :: "string \<Rightarrow> json \<Rightarrow> error + bool" where
  "py_contains k d =
     (case d of
        JObj kvs \<Rightarrow> Inr (map_of kvs k \<noteq> None)
      | JList xs \<Rightarrow> Inr (JStr k \<in> set xs)
      | JStr s \<Rightarrow> Inr (sublist k s)
      | _ \<Rightarrow> Inl TypeError)"

text \<open>\<^verbatim>\<open>for x in v\<close>: the elements of a list, the keys of a dictionary, the characters
  of a string; \<^verbatim>\<open>TypeError\<close> otherwise.\<close>

definition py_iter :: "json \<Rightarrow> error + json list" where
  "py_iter v =
     (case v of
        JList xs \<Rightarrow> Inr xs
      | JObj kvs \<Rightarrow> Inr (map (\<lambda>kv. JStr (fst kv)) kvs)
      | JStr s \<Rightarrow> Inr (map (\<lambda>c. JStr [c]) s)
      | _ \<Rightarrow> Inl TypeError)"

section \<open>Files and the network\<close>

text \<open>
  A call reads the file system and talks to the service. The world holds the files (size
  and bytes, the bytes absent when the file cannot be opened), the responses the service
  will give, in order, the requests sent so far, and the delays slept so far. A request
  with no response left fails in the transport (a timeout).
\<close>

record file_entry =
  fsize :: nat
  fbytes :: "string option"

record response =
  status_code :: nat
  resp_text :: string
  content_json :: "json option"

datatype http_method = GET | POST

datatype body = NoBody | Content string | JsonBody json | Multipart json string

record request =
  meth :: http_method
  url :: string
  params :: "(string \<times> string) list"
  headers :: "(string \<times> string) list"
  body :: body

record world =
  files :: "string \<Rightarrow> file_entry option"
  pending :: "response list"
  sent :: "request list"
  slept :: "nat list"

definition getsize :: "world \<Rightarrow> string \<Rightarrow> error + nat" where
  "getsize w path = (case files w path of None \<Rightarrow> Inl OSError | Some f \<Rightarrow> Inr (fsize f))"

text \<open>\<^verbatim>\<open>open(pdffile, "rb")\<close> (and \<^verbatim>\<open>f.read()\<close>) under
  \<^verbatim>\<open>except Exception as e: raise FileError(f"Open file error! {e}")\<close>.\<close>

definition open_file :: "world \<Rightarrow> string \<Rightarrow> error + string" where
  "open_file w path =
     (case files w path of
        None \<Rightarrow> Inl (FileError [Lit ''Open file error! '', Cause])
      | Some f \<Rightarrow>
          (case fbytes f of
             None \<Rightarrow> Inl (FileError [Lit ''Open file error! '', Cause])
           | Some bytes \<Rightarrow> Inr bytes))"

definition http_send :: "request \<Rightarrow> world \<Rightarrow> (error + response) \<times> world" where
  "http_send rq w =
     (case pending w of
        [] \<Rightarrow> (Inl TransportError, w\<lparr>sent := sent w @ [rq]\<rparr>)
      | r # rs \<Rightarrow> (Inr r, w\<lparr>sent := sent w @ [rq], pending := rs\<rparr>))"

definition Base_URL :: string where
  "Base_URL = ''https://v2.doc2x.noedgeai.com/api''"

definition bearer :: "string \<Rightarrow> string \<times> string" where
  "bearer apikey = (''Authorization'', ''Bearer '' @ apikey)"

text \<open>\<^verbatim>\<open>str(ocr).lower()\<close>\<close>

definition str_lower_bool :: "bool \<Rightarrow> string" where
  "str_lower_bool b = (if b then ''true'' else ''false'')"

text \<open>\<^verbatim>\<open>os.path.basename\<close>: what follows the last slash.\<close>

definition basename :: "string \<Rightarrow> string" where
  "basename path = rev (takeWhile (\<lambda>c. c \<noteq> CHR ''/'') (rev path))"

text \<open>
  \<^verbatim>\<open>code_check\<close> is imported from \<^verbatim>\<open>Doc2X/Exception.py\<close>, which is not among the
  sources: it is a parameter of every function that calls it, returning the exception it
  raises, if any. Its argument is the response's \<^verbatim>\<open>code\<close>, or the default of the
  \<^verbatim>\<open>get\<close>: the decoded body in the uploads, the response object in the status poll.
\<close>

datatype code_arg = OfJson json | OfResponse response

type_synonym code_check = "code_arg \<Rightarrow> error option"

definition run_check :: "code_check \<Rightarrow> code_arg \<Rightarrow> error + unit" where
  "run_check cc a = (case cc a of Some e \<Rightarrow> Inl e | None \<Rightarrow> Inr ())"

section \<open>Uploads\<close>

definition parse_pdf_request :: "string \<Rightarrow> bool \<Rightarrow> string \<Rightarrow> request" where
  "parse_pdf_request apikey ocr bytes =
     \<lparr>meth = POST, url = Base_URL @ ''/v2/parse/pdf'',
      params = [(''ocr'', str_lower_bool ocr)],
      headers = [bearer apikey, (''Content-Type'', ''application/pdf'')],
      body = Content bytes\<rparr>"

text \<open>
  \<^verbatim>\<open>upload_pdf\<close>, lines 30 to 66. The two statements after the \<^verbatim>\<open>raise\<close> of line 33 (a
  warning and \<^verbatim>\<open>return await upload_pdf_big(...)\<close>) are never executed and have no branch
  here.
\<close>

definition upload_pdf ::
  "code_check \<Rightarrow> string \<Rightarrow> string \<Rightarrow> bool \<Rightarrow> world \<Rightarrow> (error + json) \<times> world" where
  "upload_pdf cc apikey pdffile ocr w =
     (case getsize w pdffile of
        Inl e \<Rightarrow> (Inl e, w)
      | Inr sz \<Rightarrow>
          if sz \<ge> 300 * 1024 * 1024 then (Inl (RequestError [Lit ''parse_file_too_large'']), w)
          else
            (case open_file w pdffile of
               Inl e \<Rightarrow> (Inl e, w)
             | Inr bytes \<Rightarrow>
                 (case http_send (parse_pdf_request apikey ocr bytes) w of
                    (Inl e, w') \<Rightarrow> (Inl e, w')
                  | (Inr post_res, w') \<Rightarrow>
                      (if status_code post_res = 200 then
                         (case content_json post_res of
                            None \<Rightarrow> Inl JSONDecodeError
                          | Some response_data \<Rightarrow>
                              and_then (py_get response_data ''code'' response_data) (\<lambda>code.
                              and_then (run_check cc (OfJson code)) (\<lambda>_.
                              and_then (py_getitem response_data ''data'') (\<lambda>d.
                              py_getitem d ''uid''))))
                       else if status_code post_res = 429 then Inl RateLimit
                       else if status_code post_res = 400 then
                         Inl (RequestError [Lit (resp_text post_res)])
                       else
                         Inl (Exception [Lit ''Upload file error! '', Num (status_code post_res),
                                Lit '':'', Lit (resp_text post_res)]),
                       w'))))"

text \<open>\<^verbatim>\<open>name[:n]\<close> keeps the first \<open>n\<close> characters. In the UTF-8 bytes of the name a
  character is a lead byte and the continuation bytes (\<^verbatim>\<open>0x80\<close> to \<^verbatim>\<open>0xBF\<close>) after it.\<close>

definition is_continuation :: "char \<Rightarrow> bool" where
  "is_continuation c = (128 \<le> (of_char c :: nat) \<and> (of_char c :: nat) < 192)"

fun take_chars :: "nat \<Rightarrow> string \<Rightarrow> string" where
  "take_chars n [] = []"
| "take_chars n (c # cs) =
     (if is_continuation c then c # take_chars n cs
      else (case n of 0 \<Rightarrow> [] | Suc m \<Rightarrow> c # take_chars m cs))"

text \<open>The pre-upload request of lines 95 to 104, with the file name
  \<^verbatim>\<open>os.path.basename(pdffile)[:20]\<close>.\<close>

definition preupload_request :: "string \<Rightarrow> string \<Rightarrow> bool \<Rightarrow> request" where
  "preupload_request apikey pdffile ocr =
     \<lparr>meth = POST, url = Base_URL @ ''/v2/parse/preupload'',
      params = [],
      headers = [bearer apikey],
      body = JsonBody (JObj [(''file_name'', JStr (take_chars 20 (basename pdffile))),
                             (''ocr'', JBool ocr)])\<rparr>"

definition s3_request :: "string \<Rightarrow> json \<Rightarrow> string \<Rightarrow> request" where
  "s3_request upload_url form bytes =
     \<lparr>meth = POST, url = upload_url, params = [], headers = [], body = Multipart form bytes\<rparr>"

text \<open>\<^verbatim>\<open>client.post(url=upload_url, ...)\<close>: httpx takes a string for the URL and raises
  \<^verbatim>\<open>TypeError\<close> on any other value.\<close>

definition as_url :: "json \<Rightarrow> error + string" where
  "as_url v = (case v of JStr s \<Rightarrow> Inr s | _ \<Rightarrow> Inl TypeError)"

text \<open>\<^verbatim>\<open>client.post(..., data=form, files=file)\<close>: httpx builds one multipart field for
  each value of the form, and for each item of a value that is a list; a field takes a
  string, a number, a boolean or \<^verbatim>\<open>None\<close>, and \<^verbatim>\<open>TypeError\<close> is raised on anything else, before
  the request is sent.\<close>

definition primitive :: "json \<Rightarrow> bool" where
  "primitive v = (case v of JList _ \<Rightarrow> False | JObj _ \<Rightarrow> False | _ \<Rightarrow> True)"

definition multipart_fields :: "json \<Rightarrow> error + unit" where
  "multipart_fields form =
     (case form of
        JObj kvs \<Rightarrow>
          if list_all (\<lambda>kv. case snd kv of JList items \<Rightarrow> list_all primitive items
                                 | v \<Rightarrow> primitive v) kvs
          then Inr () else Inl TypeError
      | _ \<Rightarrow> Inl TypeError)"

text \<open>\<^verbatim>\<open>upload_pdf_big\<close>, lines 87 to 126.\<close>

definition upload_pdf_big ::
  "code_check \<Rightarrow> string \<Rightarrow> string \<Rightarrow> bool \<Rightarrow> world \<Rightarrow> (error + json) \<times> world" where
  "upload_pdf_big cc apikey pdffile ocr w =
     (case getsize w pdffile of
        Inl e \<Rightarrow> (Inl e, w)
      | Inr sz \<Rightarrow>
          if sz < 100 * 1024 * 1024 then
            (Inl (FileError [Lit ''PDF file size should be bigger than 100MB!'']), w)
          else
            (case open_file w pdffile of
               Inl e \<Rightarrow> (Inl e, w)
             | Inr bytes \<Rightarrow>
                 (case http_send (preupload_request apikey pdffile ocr) w of
                    (Inl e, w') \<Rightarrow> (Inl e, w')
                  | (Inr post_res, w') \<Rightarrow>
                      if status_code post_res = 200 then
                        (case content_json post_res of
                           None \<Rightarrow> (Inl JSONDecodeError, w')
                         | Some response_data \<Rightarrow>
                             (case
                                and_then (py_get response_data ''code'' response_data) (\<lambda>code.
                                and_then (run_check cc (OfJson code)) (\<lambda>_.
                                and_then (py_getitem response_data ''data'') (\<lambda>upload_data.
                                and_then (py_getitem upload_data ''url'') (\<lambda>upload_url.
                                and_then (py_getitem upload_data ''form'') (\<lambda>form.
                                and_then (py_getitem form ''x-amz-meta-uid'') (\<lambda>uid.
                                and_then (as_url upload_url) (\<lambda>u.
                                and_then (multipart_fields form) (\<lambda>_.
                                Inr (u, form, uid)))))))))
                              of
                                Inl e \<Rightarrow> (Inl e, w')
                              | Inr (u, form, uid) \<Rightarrow>
                                  (case http_send (s3_request u form bytes) w' of
                                     (Inl e, w'') \<Rightarrow> (Inl e, w'')
                                   | (Inr s3_res, w'') \<Rightarrow>
                                       (if status_code s3_res = 204 then Inr uid
                                        else Inl (RequestError [Lit (resp_text s3_res)]),
                                        w''))))
                      else if status_code post_res = 400 then
                        (Inl (RequestError [Lit (resp_text post_res)]), w')
                      else
                        (Inl (Exception [Lit ''Upload file error! '', Num (status_code post_res),
                                Lit '':'', Lit (resp_text post_res)]), w'))))"

section \<open>The result decoder\<close>

text \<open>
  \<^verbatim>\<open>re.sub(r"\\[()]", "$", text)\<close> and \<^verbatim>\<open>re.sub(r"\\[\[\]]", "$$", text)\<close>: the pattern is a
  backslash followed by one character of a class, the replacement a literal. \<^verbatim>\<open>re.sub\<close>
  scans from the left and resumes after each match.
\<close>

fun re_sub_escaped :: "char list \<Rightarrow> string \<Rightarrow> string \<Rightarrow> string" where
  "re_sub_escaped cls repl (c # d # rest) =
     (if c = CHR 0x5C \<and> d \<in> set cls then repl @ re_sub_escaped cls repl rest
      else c # re_sub_escaped cls repl (d # rest))"
| "re_sub_escaped cls repl rest = rest"

text \<open>\<^verbatim>\<open>re.sub\<close> raises \<^verbatim>\<open>TypeError\<close> on a value that is not a string.\<close>

definition re_sub :: "char list \<Rightarrow> string \<Rightarrow> json \<Rightarrow> error + json" where
  "re_sub cls repl text =
     (case text of JStr s \<Rightarrow> Inr (JStr (re_sub_escaped cls repl s)) | _ \<Rightarrow> Inl TypeError)"

text \<open>The loop of \<^verbatim>\<open>decode_data\<close>, lines 145 to 158, with \<^verbatim>\<open>texts\<close> and \<^verbatim>\<open>locations\<close> as
  accumulators.\<close>

fun decode_pages ::
  "bool \<Rightarrow> json list \<Rightarrow> json list \<Rightarrow> json list \<Rightarrow> error + (json list \<times> json list)" where
  "decode_pages convert [] texts locations = Inr (texts, locations)"
| "decode_pages convert (page # pages) texts locations =
     (case
        and_then (py_get page ''md'' (JStr '''')) (\<lambda>text.
        and_then (if convert
                  then and_then (re_sub ''()'' ''$'' text) (re_sub ''[]'' ''$$'')
                  else Inr text) (\<lambda>text.
        and_then (py_get page ''url'' (JStr '''')) (\<lambda>u.
        and_then (py_get page ''page_idx'' (JInt 0)) (\<lambda>idx.
        and_then (py_get page ''page_width'' (JInt 0)) (\<lambda>pw.
        and_then (py_get page ''page_height'' (JInt 0)) (\<lambda>ph.
        Inr (text, JObj [(''url'', u), (''page_idx'', idx),
                         (''page_width'', pw), (''page_height'', ph)])))))))
      of
        Inl e \<Rightarrow> Inl e
      | Inr (text, location) \<Rightarrow>
          decode_pages convert pages (texts @ [text]) (locations @ [location]))"

text \<open>\<^verbatim>\<open>decode_data\<close>, lines 139 to 159. The warning of line 142 goes to the log and is
  not part of the result.\<close>

definition decode_data :: "json \<Rightarrow> bool \<Rightarrow> error + (json list \<times> json list)" where
  "decode_data data convert =
     and_then (py_contains ''result'' data) (\<lambda>has_result.
     if \<not> has_result then Inr ([], [])
     else
       and_then (py_getitem data ''result'') (\<lambda>result.
       and_then (py_contains ''pages'' result) (\<lambda>has_pages.
       if \<not> has_pages then Inr ([], [])
       else
         and_then (py_getitem data ''result'') (\<lambda>result.
         and_then (py_getitem result ''pages'') (\<lambda>pages.
         and_then (py_iter pages) (\<lambda>ps.
         decode_pages convert ps [] []))))))"

section \<open>The status poller\<close>

definition status_request :: "string \<Rightarrow> string \<Rightarrow> request" where
  "status_request apikey uid =
     \<lparr>meth = GET, url = Base_URL @ ''/v2/parse/status?uid='' @ uid,
      params = [], headers = [bearer apikey], body = NoBody\<rparr>"

text \<open>\<^verbatim>\<open>uid_status\<close>, lines 182 to 211. The result is the tuple
  \<^verbatim>\<open>(progress, status, texts, locations)\<close>.\<close>

definition uid_status ::
  "code_check \<Rightarrow> string \<Rightarrow> string \<Rightarrow> bool \<Rightarrow> world
     \<Rightarrow> (error + (json \<times> json \<times> json list \<times> json list)) \<times> world" where
  "uid_status cc apikey uid convert w =
     (case http_send (status_request apikey uid) w of
        (Inl e, w') \<Rightarrow> (Inl e, w')
      | (Inr response_data, w') \<Rightarrow>
          (if status_code response_data \<noteq> 200 then
             Inl (Exception [Lit ''Get status error! '', Num (status_code response_data),
                    Lit '':'', Lit (resp_text response_data)])
           else
             (case content_json response_data of
                None \<Rightarrow>
                  Inl (Exception [Lit ''Get status error with '', Cause, Lit ''! '',
                         Num (status_code response_data), Lit '':'',
                         Lit (resp_text response_data)])
              | Some data \<Rightarrow>
                  and_then (py_get_opt data ''code'') (\<lambda>code.
                  and_then (run_check cc (case code of Some c \<Rightarrow> OfJson c
                                          | None \<Rightarrow> OfResponse response_data)) (\<lambda>_.
                  and_then (py_getitem data ''data'') (\<lambda>d.
                  and_then (py_get d ''progress'' (JInt 0)) (\<lambda>progress.
                  and_then (py_getitem data ''data'') (\<lambda>d.
                  and_then (py_get d ''status'' (JStr '''')) (\<lambda>status.
                  if status = JStr ''processing'' then
                    Inr (progress, JStr ''Processing file'', [], [])
                  else if status = JStr ''success'' then
                    and_then (py_getitem data ''data'') (\<lambda>d.
                    and_then (decode_data d convert) (\<lambda>(texts, locations).
                    Inr (JInt 100, JStr ''Success'', texts, locations)))
                  else if status = JStr ''failed'' then
                    Inl (RequestError [Lit ''Failed to deal with file! '',
                           Lit (resp_text response_data)])
                  else Inr (progress, status, [], [])))))))),
           w'))"

section \<open>The conversion requester\<close>

definition convert_request :: "string \<Rightarrow> string \<Rightarrow> string \<Rightarrow> string option \<Rightarrow> request" where
  "convert_request apikey uid to filename =
     \<lparr>meth = POST, url = Base_URL @ ''/api/v2/convert/parse'',
      params = [], headers = [bearer apikey],
      body = JsonBody (JObj ([(''uid'', JStr uid), (''to'', JStr to)] @
               (case filename of
                  None \<Rightarrow> []
                | Some name \<Rightarrow>
                    if name \<noteq> [] \<and> to \<in> set [''md'', ''tex''] then [(''filename'', JStr name)]
                    else [])))\<rparr>"

text \<open>Lines 253 to 262 of \<^verbatim>\<open>convert_parse\<close> and 294 to 303 of \<^verbatim>\<open>get_convert_result\<close>: the
  same reading of the decoded body, with a different message.\<close>

definition convert_outcome :: "fmt list \<Rightarrow> json \<Rightarrow> error + (string \<times> json)" where
  "convert_outcome message data =
     and_then (py_getitem data ''data'') (\<lambda>d.
     and_then (py_getitem d ''status'') (\<lambda>status.
     and_then (py_getitem data ''data'') (\<lambda>d.
     and_then (py_get d ''url'' (JStr '''')) (\<lambda>u.
     if status = JStr ''processing'' then Inr (''Processing'', JStr '''')
     else if status = JStr ''success'' then Inr (''Success'', u)
     else Inl (RequestError (message @ [Val data]))))))"

text \<open>\<^verbatim>\<open>convert_parse\<close>, lines 234 to 262.\<close>

definition convert_parse ::
  "string \<Rightarrow> string \<Rightarrow> string \<Rightarrow> string option \<Rightarrow> world \<Rightarrow> (error + (string \<times> json)) \<times> world" where
  "convert_parse apikey uid to filename w =
     (if to \<notin> set [''md'', ''tex'', ''docx''] then
        (Inl (ValueError ''Invalid export format. Supported formats are: md, tex, docx''), w)
      else
        (case http_send (convert_request apikey uid to filename) w of
           (Inl e, w') \<Rightarrow> (Inl e, w')
         | (Inr response_data, w') \<Rightarrow>
             (if status_code response_data \<noteq> 200 then
                Inl (Exception [Lit ''Conversion request failed: '',
                       Num (status_code response_data), Lit '':'',
                       Lit (resp_text response_data)])
              else
                (case content_json response_data of
                   None \<Rightarrow> Inl JSONDecodeError
                 | Some data \<Rightarrow>
                     convert_outcome
                       [Lit ''Conversion uid '', Lit uid, Lit '' file failed: ''] data),
              w')))"

definition convert_result_request :: "string \<Rightarrow> string \<Rightarrow> request" where
  "convert_result_request apikey uid =
     \<lparr>meth = GET, url = Base_URL @ ''/api/v2/convert/parse/result'',
      params = [(''uid'', uid)], headers = [bearer apikey], body = NoBody\<rparr>"

text \<open>\<^verbatim>\<open>get_convert_result\<close>, lines 280 to 303.\<close>

definition get_convert_result ::
  "string \<Rightarrow> string \<Rightarrow> world \<Rightarrow> (error + (string \<times> json)) \<times> world" where
  "get_convert_result apikey uid w =
     (case http_send (convert_result_request apikey uid) w of
        (Inl e, w') \<Rightarrow> (Inl e, w')
      | (Inr response, w') \<Rightarrow>
          (if status_code response \<noteq> 200 then
             Inl (Exception [Lit ''Get conversion result failed: '',
                    Num (status_code response), Lit '':'', Lit (resp_text response)])
           else
             (case content_json response of
                None \<Rightarrow> Inl JSONDecodeError
              | Some data \<Rightarrow>
                  convert_outcome
                    [Lit ''Get conversion result for uid '', Lit uid, Lit '' failed: ''] data),
           w'))"

section \<open>The transport retry policy\<close>

text \<open>
  Modelled from the spec: the decorator \<^verbatim>\<open>async_retry\<close> that wraps \<^verbatim>\<open>upload_pdf\<close>,
  \<^verbatim>\<open>upload_pdf_big\<close>, \<^verbatim>\<open>uid_status\<close>, \<^verbatim>\<open>convert_parse\<close> and \<^verbatim>\<open>get_convert_result\<close> is imported
  from \<^verbatim>\<open>Doc2X/Exception.py\<close>, which is not among the sources. The spec: it "wraps any
  network operation, applying bounded retry with classification of transient vs. fatal
  failures"; it "applies exponential-style bounded retry specifically to rate-limit and
  transient classifications; it must not retry permanent input errors (oversized file,
  unreadable file, invalid format) or terminal business failures (parse failed, conversion
  failed)"; a rate-limit error is "retried by the transport policy with backoff up to a
  bounded attempt count; exhausting attempts surfaces as a retry-exhausted error".

  The number of retries after the first attempt, the delay before each retry and which of
  the unclassified failures count as transient are not given by the spec: they are the
  fields of the policy.
\<close>

record policy =
  retries :: nat
  backoff :: "nat \<Rightarrow> nat"
  transient :: "error \<Rightarrow> bool"

text \<open>Modelled from the spec: the classification of a failure as one the policy retries.\<close>

definition retryable :: "policy \<Rightarrow> error \<Rightarrow> bool" where
  "retryable pol e =
     (case e of
        RateLimit \<Rightarrow> True
      | FileError _ \<Rightarrow> False
      | RequestError _ \<Rightarrow> False
      | ValueError _ \<Rightarrow> False
      | RetryExhausted \<Rightarrow> False
      | _ \<Rightarrow> transient pol e)"

text \<open>A delay, added to the log of the world: the backoff of the policy (modelled from the
  spec), and \<^verbatim>\<open>time.sleep\<close> in the older client.\<close>

definition sleep :: "nat \<Rightarrow> world \<Rightarrow> world" where
  "sleep delay w = w\<lparr>slept := slept w @ [delay]\<rparr>"

text \<open>Modelled from the spec: the retry loop. \<open>left\<close> counts the retries still allowed,
  \<open>k\<close> the attempts already made; the result carries the number of attempts made in all.\<close>

primrec retry_loop ::
  "policy \<Rightarrow> nat \<Rightarrow> nat \<Rightarrow> (world \<Rightarrow> (error + 'a) \<times> world) \<Rightarrow> world
     \<Rightarrow> ((error + 'a) \<times> world) \<times> nat" where
  "retry_loop pol 0 k operation w =
     (case operation w of
        (Inr v, w') \<Rightarrow> ((Inr v, w'), Suc k)
      | (Inl e, w') \<Rightarrow>
          if retryable pol e then ((Inl RetryExhausted, w'), Suc k)
          else ((Inl e, w'), Suc k))"
| "retry_loop pol (Suc left) k operation w =
     (case operation w of
        (Inr v, w') \<Rightarrow> ((Inr v, w'), Suc k)
      | (Inl e, w') \<Rightarrow>
          if retryable pol e
          then retry_loop pol left (Suc k) operation (sleep (backoff pol k) w')
          else ((Inl e, w'), Suc k))"

text \<open>Modelled from the spec: the wrapped operation, and the number of attempts it makes.\<close>

definition async_retry ::
  "policy \<Rightarrow> (world \<Rightarrow> (error + 'a) \<times> world) \<Rightarrow> world \<Rightarrow> (error + 'a) \<times> world" where
  "async_retry pol operation w = fst (retry_loop pol (retries pol) 0 operation w)"

definition attempts_made :: "policy \<Rightarrow> (world \<Rightarrow> (error + 'a) \<times> world) \<Rightarrow> world \<Rightarrow> nat" where
  "attempts_made pol operation w = snd (retry_loop pol (retries pol) 0 operation w)"

text \<open>The requests a call has added to the log.\<close>

definition new_requests :: "world \<Rightarrow> world \<Rightarrow> request list" where
  "new_requests w w' = drop (length (sent w)) (sent w')"

section \<open>The older client's own retry\<close>

definition doc2x_Base_URL :: string where
  "doc2x_Base_URL = ''https://api.doc2x.noedgeai.com/api''"

definition export_request :: "string \<Rightarrow> string \<Rightarrow> string \<Rightarrow> request" where
  "export_request api_key uuid output_format =
     \<lparr>meth = GET,
      url = doc2x_Base_URL @ ''/export?request_id='' @ uuid @ ''&to='' @ output_format,
      params = [], headers = [bearer api_key], body = NoBody\<rparr>"

text \<open>
  \<^verbatim>\<open>uuid2file\<close> of \<^verbatim>\<open>doc2x.py\<close>, lines 47 to 74. It is not decorated: on HTTP 429 it sleeps
  twice ten seconds and calls itself, with the \<^verbatim>\<open>output_format\<close> that line 48 has
  reassigned. What it does with a 200 response (lines 51 to 63: it stores the download,
  unpacks it and asks for the remaining quota) is the parameter \<open>deliver\<close>. Each call
  takes one response of the service, which is what ends the recursion here; the limit of
  the interpreter on the depth of recursion is not part of the model.
\<close>

function uuid2file ::
  "(string \<Rightarrow> string \<Rightarrow> string \<Rightarrow> string option \<Rightarrow> response \<Rightarrow> world
      \<Rightarrow> (error + string) \<times> world)
   \<Rightarrow> string \<Rightarrow> string \<Rightarrow> string \<Rightarrow> string option \<Rightarrow> world
   \<Rightarrow> (error + string) \<times> world" where
  "uuid2file deliver api_key uuid output_format output_path w =
     (case http_send (export_request api_key uuid output_format) w of
        (Inl e, w') \<Rightarrow> (Inl e, w')
      | (Inr get_res, w') \<Rightarrow>
          if status_code get_res = 200 then
            deliver api_key uuid (if output_format = ''docx'' then ''docx'' else ''zip'')
              output_path get_res w'
          else if status_code get_res = 429 then
            uuid2file deliver api_key uuid
              (if output_format = ''docx'' then ''docx'' else ''zip'') output_path
              (sleep 10 (sleep 10 w'))
          else
            (Inl (RuntimeError [Lit ''Uuid2file failed, status code: '',
                    Num (status_code get_res), Lit '':'', Lit (resp_text get_res)]), w'))"
  by pat_completeness auto
termination
  by (relation "measure (\<lambda>(deliver, api_key, uuid, output_format, output_path, w).
        length (pending w))")
     (auto simp: http_send_def sleep_def split: list.splits)

section \<open>Vocabulary of the statements\<close>

text \<open>\<^verbatim>\<open>d.get(k, default)\<close> where \<open>d\<close> is a dictionary.\<close>

definition dict_get :: "json \<Rightarrow> string \<Rightarrow> json \<Rightarrow> json" where
  "dict_get d k dflt =
     (case d of
        JObj kvs \<Rightarrow> (case map_of kvs k of Some v \<Rightarrow> v | None \<Rightarrow> dflt)
      | _ \<Rightarrow> dflt)"

definition is_dict :: "json \<Rightarrow> bool" where
  "is_dict v = (case v of JObj _ \<Rightarrow> True | _ \<Rightarrow> False)"

text \<open>The text of a page, \<^verbatim>\<open>page.get("md", "")\<close>, and the metadata record built from it
  in lines 151 to 158.\<close>

definition page_md :: "json \<Rightarrow> json" where
  "page_md page = dict_get page ''md'' (JStr '''')"

definition page_location :: "json \<Rightarrow> json" where
  "page_location page =
     JObj [(''url'', dict_get page ''url'' (JStr '''')),
           (''page_idx'', dict_get page ''page_idx'' (JInt 0)),
           (''page_width'', dict_get page ''page_width'' (JInt 0)),
           (''page_height'', dict_get page ''page_height'' (JInt 0))]"

text \<open>Lines 148 and 149 on the text of one page: the two substitutions, in order.\<close>

definition convert_text :: "string \<Rightarrow> string" where
  "convert_text s = re_sub_escaped ''[]'' ''$$'' (re_sub_escaped ''()'' ''$'' s)"


section \<open>Example inputs\<close>

definition accept_all :: code_check where
  "accept_all a = None"

text \<open>A file system with the one file \<^verbatim>\<open>a.pdf\<close>, and the responses the service will give.\<close>

definition example_world :: "nat \<Rightarrow> string option \<Rightarrow> response list \<Rightarrow> world" where
  "example_world sz bytes rs =
     \<lparr>files = (\<lambda>path. if path = ''a.pdf'' then Some \<lparr>fsize = sz, fbytes = bytes\<rparr> else None),
      pending = rs, sent = [], slept = []\<rparr>"

definition reply :: "nat \<Rightarrow> json option \<Rightarrow> response" where
  "reply code js = \<lparr>status_code = code, resp_text = ''raw'', content_json = js\<rparr>"

definition upload_reply :: response where
  "upload_reply =
     reply 200 (Some (JObj [(''code'', JStr ''success''),
                            (''data'', JObj [(''uid'', JStr ''u1'')])]))"

definition preupload_reply :: response where
  "preupload_reply =
     reply 200 (Some (JObj [(''code'', JStr ''success''),
                            (''data'', JObj [(''url'', JStr ''https://oss/put''),
                                             (''form'', JObj [(''x-amz-meta-uid'', JStr ''u2'')])])]))"

definition status_data :: "string \<Rightarrow> (string \<times> json) list \<Rightarrow> json" where
  "status_data status extra =
     JObj ([(''progress'', JInt 42), (''status'', JStr status)] @ extra)"

definition status_body :: "string \<Rightarrow> (string \<times> json) list \<Rightarrow> json" where
  "status_body status extra =
     JObj [(''code'', JStr ''success''), (''data'', status_data status extra)]"

definition convert_data :: "string \<Rightarrow> (string \<times> json) list \<Rightarrow> json" where
  "convert_data status extra = JObj ((''status'', JStr status) # extra)"

definition convert_body :: "string \<Rightarrow> (string \<times> json) list \<Rightarrow> json" where
  "convert_body status extra =
     JObj [(''code'', JStr ''success''), (''data'', convert_data status extra)]"

definition example_pages :: "json list" where
  "example_pages =
     [JObj [(''md'', JStr (CHR ''a'' # CHR 0x5C # ''(x'' @ CHR 0x5C # '')'')),
            (''page_idx'', JInt 0)],
      JObj [(''md'', JStr (CHR 0x5C # ''[y'' @ CHR 0x5C # '']'')), (''url'', JStr ''u'')]]"

definition example_policy :: policy where
  "example_policy = \<lparr>retries = 2, backoff = (\<lambda>k. 2 ^ k), transient = (\<lambda>e. False)\<rparr>"

section \<open>The network and the retry policy: basic facts\<close>

lemma http_send_pending:
  "pending w = r # rs \<Longrightarrow>
     http_send rq w = (Inr r, w\<lparr>sent := sent w @ [rq], pending := rs\<rparr>)"
  by (simp add: http_send_def)

lemma async_retry_once:
  "fst (operation w) = Inl e \<Longrightarrow> \<not> retryable pol e \<Longrightarrow>
     async_retry pol operation w = operation w \<and> attempts_made pol operation w = 1"
  by (cases "retries pol"; cases "operation w")
     (auto simp: async_retry_def attempts_made_def)

lemma permanent_errors:
  "\<not> retryable pol (RequestError m)" "\<not> retryable pol (FileError m)"
  "\<not> retryable pol (ValueError s)"
  by (simp_all add: retryable_def)

section \<open>Size limits of the uploads\<close>

text \<open>
  Claim C10. For every file whose size is below 100 MB, \<^verbatim>\<open>upload_pdf_big\<close> raises
  \<^verbatim>\<open>FileError\<close> before it opens the file or sends a request: the result is the error and
  the world is the one it was called in, whether or not the file can be opened.
\<close>

theorem upload_pdf_big_lower_bound:
  assumes "getsize w pdffile = Inr sz" and "sz < 100 * 1024 * 1024"
  shows "upload_pdf_big cc apikey pdffile ocr w =
           (Inl (FileError [Lit ''PDF file size should be bigger than 100MB!'']), w)"
  using assms by (simp add: upload_pdf_big_def)

theorem upload_pdf_big_lower_bound_witness:
  "getsize (example_world (100 * 1024 * 1024 - 1) None [preupload_reply]) ''a.pdf''
     = Inr (100 * 1024 * 1024 - 1)
   \<and> (100 * 1024 * 1024 - 1 :: nat) < 100 * 1024 * 1024
   \<and> upload_pdf_big accept_all ''k'' ''a.pdf'' True
        (example_world (100 * 1024 * 1024 - 1) None [preupload_reply])
      = (Inl (FileError [Lit ''PDF file size should be bigger than 100MB!'']),
         example_world (100 * 1024 * 1024 - 1) None [preupload_reply])"
proof -
  have size: "getsize (example_world (100 * 1024 * 1024 - 1) None [preupload_reply]) ''a.pdf''
      = Inr (100 * 1024 * 1024 - 1)"
    by (simp add: getsize_def example_world_def)
  have small: "(100 * 1024 * 1024 - 1 :: nat) < 100 * 1024 * 1024"
    by simp
  from size small upload_pdf_big_lower_bound [OF size small]
  show ?thesis by blast
qed

text \<open>
  Claim C2. For every file whose size is at or above 300 MB, \<^verbatim>\<open>upload_pdf\<close> fails at once
  with \<^verbatim>\<open>RequestError("parse_file_too_large")\<close>; the world is unchanged, so no request was
  sent and no pre-upload was started; the retry policy passes the error on after this one
  attempt, without sleeping.
\<close>

theorem upload_pdf_oversized_rejected:
  assumes "getsize w pdffile = Inr sz" and "300 * 1024 * 1024 \<le> sz"
  shows "upload_pdf cc apikey pdffile ocr w =
           (Inl (RequestError [Lit ''parse_file_too_large'']), w)
       \<and> async_retry pol (upload_pdf cc apikey pdffile ocr) w =
           (Inl (RequestError [Lit ''parse_file_too_large'']), w)
       \<and> attempts_made pol (upload_pdf cc apikey pdffile ocr) w = 1"
proof -
  have raised: "upload_pdf cc apikey pdffile ocr w =
      (Inl (RequestError [Lit ''parse_file_too_large'']), w)"
    using assms by (simp add: upload_pdf_def)
  then have "fst (upload_pdf cc apikey pdffile ocr w) =
      Inl (RequestError [Lit ''parse_file_too_large''])"
    by simp
  from async_retry_once [of "upload_pdf cc apikey pdffile ocr" w, OF this permanent_errors(1)]
    raised
  show ?thesis by simp
qed

theorem upload_pdf_oversized_rejected_witness:
  "getsize (example_world (300 * 1024 * 1024) (Some ''%PDF'') [upload_reply]) ''a.pdf''
     = Inr (300 * 1024 * 1024)
   \<and> upload_pdf accept_all ''k'' ''a.pdf'' True
        (example_world (300 * 1024 * 1024) (Some ''%PDF'') [upload_reply])
      = (Inl (RequestError [Lit ''parse_file_too_large'']),
         example_world (300 * 1024 * 1024) (Some ''%PDF'') [upload_reply])
   \<and> attempts_made example_policy (upload_pdf accept_all ''k'' ''a.pdf'' True)
        (example_world (300 * 1024 * 1024) (Some ''%PDF'') [upload_reply]) = 1"
proof -
  have size: "getsize (example_world (300 * 1024 * 1024) (Some ''%PDF'') [upload_reply]) ''a.pdf''
      = Inr (300 * 1024 * 1024)"
    by (simp add: getsize_def example_world_def)
  have large: "(300 * 1024 * 1024 :: nat) \<le> 300 * 1024 * 1024"
    by simp
  from size upload_pdf_oversized_rejected [OF size large]
  show ?thesis by blast
qed

section \<open>The status poller\<close>

lemma py_get_after_getitem:
  assumes "py_get d k dflt = Inr v"
  shows "\<exists>v'. py_get d k' dflt' = Inr v'"
  using assms by (cases d) (auto simp: py_get_def py_get_opt_def and_then_def)

text \<open>
  Claim C4. For every status response (HTTP 200, a decoded body) whose \<^verbatim>\<open>data.status\<close> is
  \<^verbatim>\<open>"failed"\<close>, \<^verbatim>\<open>uid_status\<close> returns no tuple: it raises. When \<^verbatim>\<open>code_check\<close> lets the
  response pass, what it raises is \<^verbatim>\<open>RequestError("Failed to deal with file! ...")\<close>, and
  the retry policy passes that on after the one attempt.
\<close>

theorem uid_status_failed:
  assumes "pending w = r # rs" and "status_code r = 200" and "content_json r = Some data"
    and "py_getitem data ''data'' = Inr d"
    and "py_get d ''status'' (JStr '''') = Inr (JStr ''failed'')"
  shows "(\<exists>e. fst (uid_status cc apikey uid convert w) = Inl e)
       \<and> (\<forall>code. py_get_opt data ''code'' = Inr code
              \<and> cc (case code of Some c \<Rightarrow> OfJson c | None \<Rightarrow> OfResponse r) = None \<longrightarrow>
            fst (uid_status cc apikey uid convert w) =
              Inl (RequestError [Lit ''Failed to deal with file! '', Lit (resp_text r)])
          \<and> async_retry pol (uid_status cc apikey uid convert) w =
              uid_status cc apikey uid convert w
          \<and> attempts_made pol (uid_status cc apikey uid convert) w = 1)"
proof -
  obtain progress where p: "py_get d ''progress'' (JInt 0) = Inr progress"
    using py_get_after_getitem [OF assms(5)] by blast
  obtain code where c: "py_get_opt data ''code'' = Inr code"
    using assms(4) by (cases data) (auto simp: py_getitem_def py_get_opt_def)
  have raised: "fst (uid_status cc apikey uid convert w) =
        Inl (RequestError [Lit ''Failed to deal with file! '', Lit (resp_text r)])"
    if "cc (case code of Some c \<Rightarrow> OfJson c | None \<Rightarrow> OfResponse r) = None"
    using assms p c that
    by (simp add: uid_status_def http_send_pending run_check_def and_then_def)
  have no_tuple: "\<exists>e. fst (uid_status cc apikey uid convert w) = Inl e"
  proof (cases "cc (case code of Some c \<Rightarrow> OfJson c | None \<Rightarrow> OfResponse r)")
    case None
    then show ?thesis using raised by blast
  next
    case (Some e)
    then show ?thesis
      using assms p c
      by (simp add: uid_status_def http_send_pending run_check_def and_then_def)
  qed
  have "fst (uid_status cc apikey uid convert w) =
              Inl (RequestError [Lit ''Failed to deal with file! '', Lit (resp_text r)])
          \<and> async_retry pol (uid_status cc apikey uid convert) w =
              uid_status cc apikey uid convert w
          \<and> attempts_made pol (uid_status cc apikey uid convert) w = 1"
    if "py_get_opt data ''code'' = Inr code'"
      and "cc (case code' of Some c \<Rightarrow> OfJson c | None \<Rightarrow> OfResponse r) = None" for code'
  proof -
    from that c have "code' = code" by simp
    with that raised have e: "fst (uid_status cc apikey uid convert w) =
        Inl (RequestError [Lit ''Failed to deal with file! '', Lit (resp_text r)])"
      by simp
    from async_retry_once [of "uid_status cc apikey uid convert" w, OF e permanent_errors(1)] e
    show ?thesis by simp
  qed
  with no_tuple show ?thesis by blast
qed

theorem uid_status_failed_witness:
  "fst (uid_status accept_all ''k'' ''u1'' False
          (example_world 0 None [reply 200 (Some (status_body ''failed'' []))]))
     = Inl (RequestError [Lit ''Failed to deal with file! '', Lit ''raw''])
   \<and> attempts_made example_policy (uid_status accept_all ''k'' ''u1'' False)
        (example_world 0 None [reply 200 (Some (status_body ''failed'' []))]) = 1"
proof -
  let ?d = "status_data ''failed'' []"
  let ?data = "status_body ''failed'' []"
  let ?r = "reply 200 (Some ?data)"
  let ?w = "example_world 0 None [?r]"
  have h1: "pending ?w = ?r # []" by (simp add: example_world_def)
  have h2: "status_code ?r = 200" by (simp add: reply_def)
  have h3: "content_json ?r = Some ?data" by (simp add: reply_def)
  have h4: "py_getitem ?data ''data'' = Inr ?d"
    by (simp add: py_getitem_def status_body_def)
  have h5: "py_get ?d ''status'' (JStr '''') = Inr (JStr ''failed'')"
    by (simp add: py_get_def py_get_opt_def and_then_def status_data_def)
  have h6: "py_get_opt ?data ''code'' = Inr (Some (JStr ''success''))"
    by (simp add: py_get_opt_def status_body_def)
  have h7: "accept_all (case Some (JStr ''success'') of Some c \<Rightarrow> OfJson c
              | None \<Rightarrow> OfResponse ?r) = None"
    by (simp add: accept_all_def)
  have raw: "resp_text ?r = ''raw''" by (simp add: reply_def)
  from uid_status_failed [where cc = accept_all and apikey = "''k''" and uid = "''u1''"
      and convert = False and pol = example_policy, OF h1 h2 h3 h4 h5] h6 h7
  show ?thesis unfolding raw by blast
qed

section \<open>The conversion requester\<close>

lemma convert_outcome_cases:
  assumes "py_getitem data ''data'' = Inr d" and "py_getitem d ''status'' = Inr status"
  shows "convert_outcome message data =
           (if status = JStr ''processing'' then Inr (''Processing'', JStr '''')
            else if status = JStr ''success'' then
              Inr (''Success'', dict_get d ''url'' (JStr ''''))
            else Inl (RequestError (message @ [Val data])))"
proof -
  obtain kvs where "d = JObj kvs"
    using assms(2) by (cases d) (auto simp: py_getitem_def)
  then show ?thesis
    using assms
    by (simp add: convert_outcome_def and_then_def py_get_def py_get_opt_def dict_get_def)
qed

lemma convert_outcome_not_value_error: "convert_outcome message data \<noteq> Inl (ValueError m)"
  by (auto simp: convert_outcome_def and_then_def py_getitem_def py_get_def py_get_opt_def
      split: json.splits option.splits)

lemma convert_parse_200:
  assumes "to \<in> set [''md'', ''tex'', ''docx'']"
    and "pending w = r # rs" and "status_code r = 200" and "content_json r = Some data"
  shows "fst (convert_parse apikey uid to filename w) =
           convert_outcome [Lit ''Conversion uid '', Lit uid, Lit '' file failed: ''] data"
  using assms by (simp add: convert_parse_def http_send_pending)

lemma get_convert_result_200:
  assumes "pending w = r # rs" and "status_code r = 200" and "content_json r = Some data"
  shows "fst (get_convert_result apikey uid w) =
           convert_outcome
             [Lit ''Get conversion result for uid '', Lit uid, Lit '' failed: ''] data"
  using assms by (simp add: get_convert_result_def http_send_pending)

text \<open>
  Claim C7. For every target format that is not \<^verbatim>\<open>md\<close>, \<^verbatim>\<open>tex\<close> or \<^verbatim>\<open>docx\<close>, \<^verbatim>\<open>convert_parse\<close>
  raises \<^verbatim>\<open>ValueError\<close> in the world it was called in (no request is sent), and the retry
  policy passes it on after the one attempt. For a supported format the request is sent
  and, whatever follows, the outcome is never a \<^verbatim>\<open>ValueError\<close>: the error is raised by the
  format check and by nothing else.
\<close>

theorem convert_parse_invalid_format:
  "(to \<notin> set [''md'', ''tex'', ''docx''] \<longrightarrow>
      convert_parse apikey uid to filename w =
        (Inl (ValueError ''Invalid export format. Supported formats are: md, tex, docx''), w)
    \<and> new_requests w (snd (convert_parse apikey uid to filename w)) = []
    \<and> async_retry pol (convert_parse apikey uid to filename) w =
        (Inl (ValueError ''Invalid export format. Supported formats are: md, tex, docx''), w)
    \<and> attempts_made pol (convert_parse apikey uid to filename) w = 1)
   \<and> (to \<in> set [''md'', ''tex'', ''docx''] \<longrightarrow>
      new_requests w (snd (convert_parse apikey uid to filename w)) =
        [convert_request apikey uid to filename]
    \<and> (\<forall>m. fst (convert_parse apikey uid to filename w) \<noteq> Inl (ValueError m)))"
proof (intro conjI impI)
  assume bad: "to \<notin> set [''md'', ''tex'', ''docx'']"
  then show raised: "convert_parse apikey uid to filename w =
        (Inl (ValueError ''Invalid export format. Supported formats are: md, tex, docx''), w)"
    by (simp add: convert_parse_def)
  then show "new_requests w (snd (convert_parse apikey uid to filename w)) = []"
    by (simp add: new_requests_def)
  from raised have "fst (convert_parse apikey uid to filename w) =
      Inl (ValueError ''Invalid export format. Supported formats are: md, tex, docx'')"
    by simp
  from async_retry_once [of "convert_parse apikey uid to filename" w, OF this
      permanent_errors(3)] raised
  show "async_retry pol (convert_parse apikey uid to filename) w =
        (Inl (ValueError ''Invalid export format. Supported formats are: md, tex, docx''), w)"
    and "attempts_made pol (convert_parse apikey uid to filename) w = 1"
    by simp_all
next
  assume good: "to \<in> set [''md'', ''tex'', ''docx'']"
  then show "new_requests w (snd (convert_parse apikey uid to filename w)) =
        [convert_request apikey uid to filename]"
    by (simp add: convert_parse_def http_send_def new_requests_def split: list.splits)
  from good show "\<forall>m. fst (convert_parse apikey uid to filename w) \<noteq> Inl (ValueError m)"
    using convert_outcome_not_value_error
    by (simp add: convert_parse_def http_send_def split: list.splits option.splits)
qed

theorem convert_parse_invalid_format_witness:
  "''pdf'' \<notin> set [''md'', ''tex'', ''docx'']
   \<and> convert_parse ''k'' ''u1'' ''pdf'' None (example_world 0 None [])
      = (Inl (ValueError ''Invalid export format. Supported formats are: md, tex, docx''),
         example_world 0 None [])
   \<and> attempts_made example_policy (convert_parse ''k'' ''u1'' ''pdf'' None)
        (example_world 0 None []) = 1
   \<and> ''md'' \<in> set [''md'', ''tex'', ''docx'']
   \<and> new_requests (example_world 0 None [])
        (snd (convert_parse ''k'' ''u1'' ''md'' None (example_world 0 None [])))
      = [convert_request ''k'' ''u1'' ''md'' None]
   \<and> fst (convert_parse ''k'' ''u1'' ''md'' None (example_world 0 None []))
      = Inl TransportError"
proof -
  have bad: "''pdf'' \<notin> set [''md'', ''tex'', ''docx'']" by simp
  have good: "''md'' \<in> set [''md'', ''tex'', ''docx'']" by simp
  have timeout: "fst (convert_parse ''k'' ''u1'' ''md'' None (example_world 0 None []))
      = Inl TransportError"
    by (simp add: convert_parse_def http_send_def example_world_def)
  from bad good timeout
    convert_parse_invalid_format [of "''pdf''" "''k''" "''u1''" None "example_world 0 None []"
      example_policy]
    convert_parse_invalid_format [of "''md''" "''k''" "''u1''" None "example_world 0 None []"
      example_policy]
  show ?thesis by blast
qed

text \<open>
  Claim C8, as the code has it. For \<^verbatim>\<open>convert_parse\<close> (with a supported format) and for
  \<^verbatim>\<open>get_convert_result\<close>, on a 200 response whose decoded body has \<^verbatim>\<open>data.status\<close>:
  \<^verbatim>\<open>"processing"\<close> returns \<^verbatim>\<open>("Processing", "")\<close>; \<^verbatim>\<open>"success"\<close> returns \<^verbatim>\<open>"Success"\<close> with
  the \<^verbatim>\<open>url\<close> of the response, which is the empty string when the response has none; any
  other status raises \<^verbatim>\<open>RequestError\<close> with the uid and the decoded body in its message,
  and the retry policy passes that on after the one attempt.
\<close>

theorem convert_tri_state:
  assumes "pending w = r # rs" and "status_code r = 200" and "content_json r = Some data"
    and "py_getitem data ''data'' = Inr d" and "py_getitem d ''status'' = Inr status"
    and "to \<in> set [''md'', ''tex'', ''docx'']"
  shows "fst (convert_parse apikey uid to filename w) =
           (if status = JStr ''processing'' then Inr (''Processing'', JStr '''')
            else if status = JStr ''success'' then
              Inr (''Success'', dict_get d ''url'' (JStr ''''))
            else Inl (RequestError
                   [Lit ''Conversion uid '', Lit uid, Lit '' file failed: '', Val data]))
       \<and> fst (get_convert_result apikey uid w) =
           (if status = JStr ''processing'' then Inr (''Processing'', JStr '''')
            else if status = JStr ''success'' then
              Inr (''Success'', dict_get d ''url'' (JStr ''''))
            else Inl (RequestError
                   [Lit ''Get conversion result for uid '', Lit uid, Lit '' failed: '',
                    Val data]))
       \<and> (status \<noteq> JStr ''processing'' \<and> status \<noteq> JStr ''success'' \<longrightarrow>
            async_retry pol (convert_parse apikey uid to filename) w =
              convert_parse apikey uid to filename w
          \<and> attempts_made pol (convert_parse apikey uid to filename) w = 1
          \<and> async_retry pol (get_convert_result apikey uid) w = get_convert_result apikey uid w
          \<and> attempts_made pol (get_convert_result apikey uid) w = 1)"
proof -
  have request: "fst (convert_parse apikey uid to filename w) =
           (if status = JStr ''processing'' then Inr (''Processing'', JStr '''')
            else if status = JStr ''success'' then
              Inr (''Success'', dict_get d ''url'' (JStr ''''))
            else Inl (RequestError
                   [Lit ''Conversion uid '', Lit uid, Lit '' file failed: '', Val data]))"
    unfolding convert_parse_200 [OF assms(6) assms(1-3)]
      convert_outcome_cases [OF assms(4,5)]
    by simp
  have fetch: "fst (get_convert_result apikey uid w) =
           (if status = JStr ''processing'' then Inr (''Processing'', JStr '''')
            else if status = JStr ''success'' then
              Inr (''Success'', dict_get d ''url'' (JStr ''''))
            else Inl (RequestError
                   [Lit ''Get conversion result for uid '', Lit uid, Lit '' failed: '',
                    Val data]))"
    unfolding get_convert_result_200 [OF assms(1-3)] convert_outcome_cases [OF assms(4,5)]
    by simp
  have final: "async_retry pol (convert_parse apikey uid to filename) w =
              convert_parse apikey uid to filename w
          \<and> attempts_made pol (convert_parse apikey uid to filename) w = 1
          \<and> async_retry pol (get_convert_result apikey uid) w = get_convert_result apikey uid w
          \<and> attempts_made pol (get_convert_result apikey uid) w = 1"
    if other: "status \<noteq> JStr ''processing'' \<and> status \<noteq> JStr ''success''"
  proof -
    from request other have e1: "fst (convert_parse apikey uid to filename w) =
        Inl (RequestError [Lit ''Conversion uid '', Lit uid, Lit '' file failed: '', Val data])"
      by simp
    from fetch other have e2: "fst (get_convert_result apikey uid w) =
        Inl (RequestError [Lit ''Get conversion result for uid '', Lit uid,
               Lit '' failed: '', Val data])"
      by simp
    from async_retry_once [of "convert_parse apikey uid to filename" w, OF e1
        permanent_errors(1)]
      async_retry_once [of "get_convert_result apikey uid" w, OF e2 permanent_errors(1)]
    show ?thesis by simp
  qed
  from request fetch final show ?thesis by blast
qed

theorem convert_tri_state_witness:
  "fst (convert_parse ''k'' ''u1'' ''md'' None
          (example_world 0 None
             [reply 200 (Some (convert_body ''success'' [(''url'', JStr ''https://x/u1.zip'')]))]))
     = Inr (''Success'', JStr ''https://x/u1.zip'')
   \<and> fst (get_convert_result ''k'' ''u1''
          (example_world 0 None [reply 200 (Some (convert_body ''processing'' []))]))
     = Inr (''Processing'', JStr '''')
   \<and> fst (convert_parse ''k'' ''u1'' ''md'' None
          (example_world 0 None [reply 200 (Some (convert_body ''failed'' []))]))
     = Inl (RequestError [Lit ''Conversion uid '', Lit ''u1'', Lit '' file failed: '',
              Val (convert_body ''failed'' [])])
   \<and> attempts_made example_policy (convert_parse ''k'' ''u1'' ''md'' None)
        (example_world 0 None [reply 200 (Some (convert_body ''failed'' []))]) = 1"
proof -
  have fmt: "''md'' \<in> set [''md'', ''tex'', ''docx'']" by simp
  have pending: "pending (example_world 0 None [reply 200 (Some (convert_body s extra))]) =
      reply 200 (Some (convert_body s extra)) # []" for s extra
    by (simp add: example_world_def)
  have ok: "status_code (reply 200 (Some (convert_body s extra))) = 200" for s extra
    by (simp add: reply_def)
  have js: "content_json (reply 200 (Some (convert_body s extra))) =
      Some (convert_body s extra)" for s extra
    by (simp add: reply_def)
  have d: "py_getitem (convert_body s extra) ''data'' = Inr (convert_data s extra)" for s extra
    by (simp add: py_getitem_def convert_body_def)
  have st: "py_getitem (convert_data s extra) ''status'' = Inr (JStr s)" for s extra
    by (simp add: py_getitem_def convert_data_def)
  have u: "dict_get (convert_data ''success'' [(''url'', JStr ''https://x/u1.zip'')]) ''url''
      (JStr '''') = JStr ''https://x/u1.zip''"
    by (simp add: dict_get_def convert_data_def)
  from convert_tri_state [where apikey = "''k''" and uid = "''u1''" and filename = None
      and pol = example_policy, OF pending ok js d st fmt, of "''success''"]
  have a: "fst (convert_parse ''k'' ''u1'' ''md'' None
          (example_world 0 None
             [reply 200 (Some (convert_body ''success'' [(''url'', JStr ''https://x/u1.zip'')]))]))
     = Inr (''Success'', JStr ''https://x/u1.zip'')"
    by (simp add: u)
  from convert_tri_state [where apikey = "''k''" and uid = "''u1''" and filename = None
      and pol = example_policy, OF pending ok js d st fmt, of "''processing''" "[]"]
  have b: "fst (get_convert_result ''k'' ''u1''
          (example_world 0 None [reply 200 (Some (convert_body ''processing'' []))]))
     = Inr (''Processing'', JStr '''')"
    by simp
  from convert_tri_state [where apikey = "''k''" and uid = "''u1''" and filename = None
      and pol = example_policy, OF pending ok js d st fmt, of "''failed''" "[]"]
  have c: "fst (convert_parse ''k'' ''u1'' ''md'' None
          (example_world 0 None [reply 200 (Some (convert_body ''failed'' []))]))
     = Inl (RequestError [Lit ''Conversion uid '', Lit ''u1'', Lit '' file failed: '',
              Val (convert_body ''failed'' [])])
   \<and> attempts_made example_policy (convert_parse ''k'' ''u1'' ''md'' None)
        (example_world 0 None [reply 200 (Some (convert_body ''failed'' []))]) = 1"
    by simp
  from a b c show ?thesis by blast
qed

theorem convert_success_without_url:
  "fst (convert_parse ''k'' ''u1'' ''md'' None
          (example_world 0 None [reply 200 (Some (convert_body ''success'' []))]))
     = Inr (''Success'', JStr '''')
   \<and> fst (get_convert_result ''k'' ''u1''
          (example_world 0 None [reply 200 (Some (convert_body ''success'' []))]))
     = Inr (''Success'', JStr '''')"
  by (simp add: convert_parse_def get_convert_result_def http_send_def example_world_def
      reply_def convert_body_def convert_data_def convert_outcome_def py_getitem_def
      py_get_def py_get_opt_def and_then_def)

section \<open>The result decoder\<close>

lemma py_get_dict: "py_get (JObj kvs) k dflt = Inr (dict_get (JObj kvs) k dflt)"
  by (simp add: py_get_def py_get_opt_def and_then_def dict_get_def)

lemma decode_pages_plain:
  "list_all is_dict ps \<Longrightarrow>
     decode_pages False ps texts locations =
       Inr (texts @ map page_md ps, locations @ map page_location ps)"
proof (induction ps arbitrary: texts locations)
  case Nil
  then show ?case by simp
next
  case (Cons p ps)
  then obtain kvs where p: "p = JObj kvs"
    by (cases p) (auto simp: is_dict_def)
  from Cons show ?case
    by (simp add: p py_get_dict and_then_def page_md_def page_location_def)
qed

lemma decode_pages_convert:
  "list_all2 (\<lambda>p s. is_dict p \<and> page_md p = JStr s) ps ss \<Longrightarrow>
     decode_pages True ps texts locations =
       Inr (texts @ map (\<lambda>s. JStr (convert_text s)) ss, locations @ map page_location ps)"
proof (induction ps ss arbitrary: texts locations rule: list_all2_induct)
  case Nil
  then show ?case by simp
next
  case (Cons p ps s ss)
  then obtain kvs where p: "p = JObj kvs"
    by (cases p) (auto simp: is_dict_def)
  have md: "dict_get (JObj kvs) ''md'' (JStr '''') = JStr s"
    using Cons.hyps(1) p by (simp add: page_md_def)
  show ?case
    by (simp add: p py_get_dict and_then_def md page_location_def re_sub_def convert_text_def
        Cons.IH)
qed

lemma decode_data_pages:
  assumes "py_getitem data ''result'' = Inr result"
    and "py_getitem result ''pages'' = Inr (JList ps)"
  shows "decode_data data convert = decode_pages convert ps [] []"
proof -
  obtain kvs where data: "data = JObj kvs"
    using assms(1) by (cases data) (auto simp: py_getitem_def)
  obtain rkvs where result: "result = JObj rkvs"
    using assms(2) by (cases result) (auto simp: py_getitem_def)
  have "py_contains ''result'' data = Inr True"
    using assms(1) by (auto simp: data py_contains_def py_getitem_def split: option.splits)
  moreover have "py_contains ''pages'' result = Inr True"
    using assms(2) by (auto simp: result py_contains_def py_getitem_def split: option.splits)
  ultimately show ?thesis
    using assms by (simp add: decode_data_def and_then_def py_iter_def)
qed

lemma re_sub_escaped_split:
  "c \<notin> set cls \<Longrightarrow>
     re_sub_escaped cls repl (a @ c # r) =
       re_sub_escaped cls repl a @ re_sub_escaped cls repl (c # r)"
  by (induction cls repl a rule: re_sub_escaped.induct) auto

lemma re_sub_escaped_occurrence:
  assumes "d \<in> set cls" and "CHR 0x5C \<notin> set cls"
  shows "re_sub_escaped cls repl (a @ CHR 0x5C # d # b) =
           re_sub_escaped cls repl a @ repl @ re_sub_escaped cls repl b"
  using assms by (simp add: re_sub_escaped_split)

lemma re_sub_escaped_keep:
  "c \<noteq> CHR 0x5C \<Longrightarrow> re_sub_escaped cls repl (c # r) = c # re_sub_escaped cls repl r"
  by (cases r) auto

lemma re_sub_escaped_none:
  "(\<And>a d b. t = a @ CHR 0x5C # d # b \<Longrightarrow> d \<notin> set cls) \<Longrightarrow> re_sub_escaped cls repl t = t"
proof (induction cls repl t rule: re_sub_escaped.induct)
  case (1 cls repl c d rest)
  have here: "\<not> (c = CHR 0x5C \<and> d \<in> set cls)"
    using "1.prems" [of "[]" d rest] by auto
  have "d' \<notin> set cls" if "d # rest = a @ CHR 0x5C # d' # b" for a d' b
    using "1.prems" [of "c # a" d' b] that by simp
  with "1.IH"(2) here have "re_sub_escaped cls repl (d # rest) = d # rest"
    by blast
  with here show ?case by auto
qed simp_all

lemma convert_text_paren:
  assumes "d \<in> set ''()''"
  shows "convert_text (a @ CHR 0x5C # d # b) = convert_text a @ ''$'' @ convert_text b"
proof -
  have "re_sub_escaped ''()'' ''$'' (a @ CHR 0x5C # d # b) =
          re_sub_escaped ''()'' ''$'' a @ ''$'' @ re_sub_escaped ''()'' ''$'' b"
    using assms by (intro re_sub_escaped_occurrence) auto
  then show ?thesis
    by (simp add: convert_text_def re_sub_escaped_split re_sub_escaped_keep)
qed

lemma convert_text_bracket:
  assumes "d \<in> set ''[]''"
  shows "convert_text (a @ CHR 0x5C # d # b) = convert_text a @ ''$$'' @ convert_text b"
proof -
  have d: "d \<notin> set ''()''" "d \<noteq> CHR 0x5C"
    using assms by auto
  have "re_sub_escaped ''()'' ''$'' (CHR 0x5C # d # b) =
          CHR 0x5C # re_sub_escaped ''()'' ''$'' (d # b)"
    using d(1) by simp
  also have "re_sub_escaped ''()'' ''$'' (d # b) = d # re_sub_escaped ''()'' ''$'' b"
    using d(2) by (rule re_sub_escaped_keep)
  finally have "re_sub_escaped ''()'' ''$'' (a @ CHR 0x5C # d # b) =
          re_sub_escaped ''()'' ''$'' a @ CHR 0x5C # d # re_sub_escaped ''()'' ''$'' b"
    by (simp add: re_sub_escaped_split)
  moreover have "re_sub_escaped ''[]'' ''$$'' (x @ CHR 0x5C # d # y) =
          re_sub_escaped ''[]'' ''$$'' x @ ''$$'' @ re_sub_escaped ''[]'' ''$$'' y" for x y
    using assms by (intro re_sub_escaped_occurrence) auto
  ultimately show ?thesis
    by (simp add: convert_text_def)
qed

lemma convert_text_none:
  assumes "\<And>a d b. t = a @ CHR 0x5C # d # b \<Longrightarrow> d \<notin> set ''()[]''"
  shows "convert_text t = t"
proof -
  have "re_sub_escaped ''()'' ''$'' t = t"
    using assms by (intro re_sub_escaped_none) auto
  moreover have "re_sub_escaped ''[]'' ''$$'' t = t"
    using assms by (intro re_sub_escaped_none) auto
  ultimately show ?thesis by (simp add: convert_text_def)
qed

text \<open>
  Claim C5. For a response whose \<^verbatim>\<open>result.pages\<close> is a list of dictionaries with string
  texts \<open>ss\<close>: with the flag set, the text of every page is \<open>convert_text\<close> of the original,
  where \<open>convert_text\<close> turns every occurrence of backslash-parenthesis (opening or closing)
  into one dollar sign and every occurrence of backslash-bracket into two, and changes
  nothing in a text without such an occurrence; with the flag clear, the texts are the
  originals. The metadata is the same in both cases.
\<close>

theorem decode_data_escape_flag:
  assumes "py_getitem data ''result'' = Inr result"
    and "py_getitem result ''pages'' = Inr (JList ps)"
    and "list_all2 (\<lambda>p s. is_dict p \<and> page_md p = JStr s) ps ss"
  shows "decode_data data True =
           Inr (map (\<lambda>s. JStr (convert_text s)) ss, map page_location ps)
       \<and> decode_data data False = Inr (map JStr ss, map page_location ps)
       \<and> (\<forall>a b d. d \<in> set ''()'' \<longrightarrow>
            convert_text (a @ CHR 0x5C # d # b) = convert_text a @ ''$'' @ convert_text b)
       \<and> (\<forall>a b d. d \<in> set ''[]'' \<longrightarrow>
            convert_text (a @ CHR 0x5C # d # b) = convert_text a @ ''$$'' @ convert_text b)
       \<and> (\<forall>t. (\<forall>a d b. t = a @ CHR 0x5C # d # b \<longrightarrow> d \<notin> set ''()[]'') \<longrightarrow>
            convert_text t = t)"
proof -
  have dicts: "list_all is_dict ps"
    using assms(3) by (induction rule: list_all2_induct) auto
  have mds: "map page_md ps = map JStr ss"
    using assms(3) by (induction rule: list_all2_induct) auto
  have on: "decode_data data True =
      Inr (map (\<lambda>s. JStr (convert_text s)) ss, map page_location ps)"
    unfolding decode_data_pages [OF assms(1,2)]
    using decode_pages_convert [OF assms(3), of "[]" "[]"] by simp
  have off: "decode_data data False = Inr (map JStr ss, map page_location ps)"
    unfolding decode_data_pages [OF assms(1,2)]
    using decode_pages_plain [OF dicts, of "[]" "[]"] mds by simp
  from on off convert_text_paren convert_text_bracket convert_text_none
  show ?thesis by blast
qed

theorem decode_data_escape_flag_witness:
  "decode_data (JObj [(''result'', JObj [(''pages'', JList example_pages)])]) True
     = Inr ([JStr ''a$x$'', JStr ''$$y$$''], map page_location example_pages)
   \<and> decode_data (JObj [(''result'', JObj [(''pages'', JList example_pages)])]) False
     = Inr ([JStr (CHR ''a'' # CHR 0x5C # ''(x'' @ CHR 0x5C # '')''),
             JStr (CHR 0x5C # ''[y'' @ CHR 0x5C # '']'')],
            map page_location example_pages)
   \<and> convert_text (''a'' @ CHR 0x5C # CHR ''('' # ''x'') = ''a$x''
   \<and> convert_text (''b'' @ CHR 0x5C # CHR '']'' # ''y'') = ''b$$y''
   \<and> convert_text ''a+b'' = ''a+b''"
proof -
  let ?ss = "[CHR ''a'' # CHR 0x5C # ''(x'' @ CHR 0x5C # '')'', CHR 0x5C # ''[y'' @ CHR 0x5C # '']'']"
  have h1: "py_getitem (JObj [(''result'', JObj [(''pages'', JList example_pages)])]) ''result''
      = Inr (JObj [(''pages'', JList example_pages)])"
    by (simp add: py_getitem_def)
  have h2: "py_getitem (JObj [(''pages'', JList example_pages)]) ''pages''
      = Inr (JList example_pages)"
    by (simp add: py_getitem_def)
  have h3: "list_all2 (\<lambda>p s. is_dict p \<and> page_md p = JStr s) example_pages ?ss"
    by (simp add: example_pages_def is_dict_def page_md_def dict_get_def)
  have c1: "convert_text (CHR ''a'' # CHR 0x5C # ''(x'' @ CHR 0x5C # '')'') = ''a$x$''"
    by (simp add: convert_text_def)
  have c2: "convert_text (CHR 0x5C # ''[y'' @ CHR 0x5C # '']'') = ''$$y$$''"
    by (simp add: convert_text_def)
  have plain: "convert_text ''a'' = ''a''" "convert_text ''x'' = ''x''"
    "convert_text ''b'' = ''b''" "convert_text ''y'' = ''y''"
    by (simp_all add: convert_text_def)
  have p1: "CHR ''('' \<in> set ''()''" and p2: "CHR '']'' \<in> set ''[]''"
    by simp_all
  have none: "\<forall>a d b. ''a+b'' = a @ CHR 0x5C # d # b \<longrightarrow> d \<notin> set ''()[]''"
  proof (intro allI impI)
    fix a d b
    assume "''a+b'' = a @ CHR 0x5C # d # b"
    then have "set ''a+b'' = set (a @ CHR 0x5C # d # b)" by simp
    then have "CHR 0x5C \<in> set ''a+b''" by simp
    then show "d \<notin> set ''()[]''" by simp
  qed
  note laws = decode_data_escape_flag [OF h1 h2 h3]
  from laws have on: "decode_data (JObj [(''result'', JObj [(''pages'', JList example_pages)])])
      True = Inr (map (\<lambda>s. JStr (convert_text s)) ?ss, map page_location example_pages)"
    and off: "decode_data (JObj [(''result'', JObj [(''pages'', JList example_pages)])])
      False = Inr (map JStr ?ss, map page_location example_pages)"
    and paren: "\<And>a b d. d \<in> set ''()'' \<Longrightarrow>
      convert_text (a @ CHR 0x5C # d # b) = convert_text a @ ''$'' @ convert_text b"
    and bracket: "\<And>a b d. d \<in> set ''[]'' \<Longrightarrow>
      convert_text (a @ CHR 0x5C # d # b) = convert_text a @ ''$$'' @ convert_text b"
    and same: "\<And>t. (\<forall>a d b. t = a @ CHR 0x5C # d # b \<longrightarrow> d \<notin> set ''()[]'') \<Longrightarrow>
      convert_text t = t"
    by blast+
  from on off paren [OF p1, of "''a''" "''x''"] bracket [OF p2, of "''b''" "''y''"]
    same [OF none] c1 c2
  show ?thesis by (simp add: plain)
qed

text \<open>
  Claim C6, as the code has it. For every response dictionary that has no \<^verbatim>\<open>result\<close> key,
  or whose \<^verbatim>\<open>result\<close> is a dictionary without a \<^verbatim>\<open>pages\<close> key, \<^verbatim>\<open>decode_data\<close> returns
  \<^verbatim>\<open>([], [])\<close> and raises nothing.
\<close>

theorem decode_data_without_pages:
  assumes "map_of kvs ''result'' = None
           \<or> (\<exists>r. map_of kvs ''result'' = Some (JObj r) \<and> map_of r ''pages'' = None)"
  shows "decode_data (JObj kvs) convert = Inr ([], [])"
  using assms
  by (auto simp: decode_data_def py_contains_def py_getitem_def and_then_def)

theorem decode_data_without_pages_witness:
  "map_of [(''progress'', JInt 100)] ''result'' = None
   \<and> decode_data (JObj [(''progress'', JInt 100)]) True = Inr ([], [])
   \<and> map_of [(''result'', JObj [(''version'', JStr ''v2'')])] ''result''
        = Some (JObj [(''version'', JStr ''v2'')])
   \<and> map_of [(''version'', JStr ''v2'')] ''pages'' = None
   \<and> decode_data (JObj [(''result'', JObj [(''version'', JStr ''v2'')])]) False = Inr ([], [])"
proof -
  have none: "map_of [(''progress'', JInt 100)] ''result'' = None"
    by simp
  have some: "map_of [(''result'', JObj [(''version'', JStr ''v2'')])] ''result''
        = Some (JObj [(''version'', JStr ''v2'')])"
    by simp
  have no_pages: "map_of [(''version'', JStr ''v2'')] ''pages'' = None"
    by simp
  from none have a: "decode_data (JObj [(''progress'', JInt 100)]) True = Inr ([], [])"
    by (intro decode_data_without_pages) simp
  from some no_pages
  have b: "decode_data (JObj [(''result'', JObj [(''version'', JStr ''v2'')])]) False
      = Inr ([], [])"
    by (intro decode_data_without_pages) simp
  from none some no_pages a b show ?thesis by blast
qed

text \<open>A response dictionary whose \<^verbatim>\<open>result\<close> is \<^verbatim>\<open>None\<close> has no \<^verbatim>\<open>result.pages\<close>, and
  \<^verbatim>\<open>"pages" not in data["result"]\<close> raises \<^verbatim>\<open>TypeError\<close> on it.\<close>

theorem decode_data_null_result_raises:
  "decode_data (JObj [(''result'', JNull)]) False = Inl TypeError
   \<and> decode_data (JObj [(''result'', JNull)]) True = Inl TypeError"
  by (simp add: decode_data_def py_contains_def py_getitem_def and_then_def)

section \<open>The status poller on a success response\<close>

lemma decode_data_no_pages:
  assumes "map_of kvs ''result'' = None
           \<or> (\<exists>r. map_of kvs ''result'' = Some (JObj r) \<and> map_of r ''pages'' = None)"
  shows "decode_data (JObj kvs) convert = Inr ([], [])"
  using assms
  by (auto simp: decode_data_def py_contains_def py_getitem_def and_then_def)

lemma decode_data_decoded:
  assumes "py_getitem data ''result'' = Inr result"
    and "py_getitem result ''pages'' = Inr (JList ps)"
    and "list_all2 (\<lambda>p s. is_dict p \<and> page_md p = JStr s) ps ss"
  shows "decode_data data convert =
           Inr (map (\<lambda>s. JStr (if convert then convert_text s else s)) ss,
                map page_location ps)"
proof (cases convert)
  case True
  then show ?thesis
    unfolding decode_data_pages [OF assms(1,2)]
    using decode_pages_convert [OF assms(3), of "[]" "[]"] by simp
next
  case False
  have dicts: "list_all is_dict ps"
    using assms(3) by (induction rule: list_all2_induct) auto
  have mds: "map page_md ps = map JStr ss"
    using assms(3) by (induction rule: list_all2_induct) auto
  from False show ?thesis
    unfolding decode_data_pages [OF assms(1,2)]
    using decode_pages_plain [OF dicts, of "[]" "[]"] mds by simp
qed

lemma uid_status_200_success:
  assumes "pending w = r # rs" and "status_code r = 200" and "content_json r = Some data"
    and "py_get_opt data ''code'' = Inr code"
    and "cc (case code of Some c \<Rightarrow> OfJson c | None \<Rightarrow> OfResponse r) = None"
    and "py_getitem data ''data'' = Inr d"
    and "py_get d ''status'' (JStr '''') = Inr (JStr ''success'')"
  shows "fst (uid_status cc apikey uid convert w) =
           and_then (decode_data d convert)
             (\<lambda>(texts, locations). Inr (JInt 100, JStr ''Success'', texts, locations))"
proof -
  obtain progress where "py_get d ''progress'' (JInt 0) = Inr progress"
    using py_get_after_getitem [OF assms(7)] by blast
  then show ?thesis
    using assms
    by (simp add: uid_status_def http_send_pending run_check_def and_then_def)
qed

text \<open>
  Claim C3, as the code has it. For every status response (HTTP 200, a decoded body that
  passes \<^verbatim>\<open>code_check\<close>) whose \<^verbatim>\<open>data.status\<close> is \<^verbatim>\<open>"success"\<close>, \<^verbatim>\<open>uid_status\<close> runs
  \<^verbatim>\<open>decode_data\<close> on \<^verbatim>\<open>data\<close>. Whenever the decoder returns, the poller returns progress 100
  and label \<^verbatim>\<open>"Success"\<close> with the decoder's two lists, whatever \<^verbatim>\<open>progress\<close> the response
  carries; the decoder returns when \<^verbatim>\<open>data\<close> has no \<^verbatim>\<open>result\<close>, when \<^verbatim>\<open>result\<close> is a
  dictionary without \<^verbatim>\<open>pages\<close>, and when \<^verbatim>\<open>result.pages\<close> is a list of dictionary pages
  with string texts. When the decoder raises, the poller raises the same exception.
\<close>

theorem uid_status_success:
  assumes "pending w = r # rs" and "status_code r = 200" and "content_json r = Some data"
    and "py_get_opt data ''code'' = Inr code"
    and "cc (case code of Some c \<Rightarrow> OfJson c | None \<Rightarrow> OfResponse r) = None"
    and "py_getitem data ''data'' = Inr d"
    and "py_get d ''status'' (JStr '''') = Inr (JStr ''success'')"
  shows "(\<forall>texts locations. decode_data d convert = Inr (texts, locations) \<longrightarrow>
            fst (uid_status cc apikey uid convert w) =
              Inr (JInt 100, JStr ''Success'', texts, locations))
       \<and> (\<forall>e. decode_data d convert = Inl e \<longrightarrow>
            fst (uid_status cc apikey uid convert w) = Inl e)
       \<and> (\<forall>kvs. d = JObj kvs
              \<and> (map_of kvs ''result'' = None
                 \<or> (\<exists>res. map_of kvs ''result'' = Some (JObj res)
                          \<and> map_of res ''pages'' = None)) \<longrightarrow>
            fst (uid_status cc apikey uid convert w) =
              Inr (JInt 100, JStr ''Success'', [], []))
       \<and> (\<forall>result ps ss. py_getitem d ''result'' = Inr result
              \<and> py_getitem result ''pages'' = Inr (JList ps)
              \<and> list_all2 (\<lambda>p s. is_dict p \<and> page_md p = JStr s) ps ss \<longrightarrow>
            fst (uid_status cc apikey uid convert w) =
              Inr (JInt 100, JStr ''Success'',
                   map (\<lambda>s. JStr (if convert then convert_text s else s)) ss,
                   map page_location ps))"
proof -
  note run = uid_status_200_success [where cc = cc and apikey = apikey and uid = uid
      and convert = convert, OF assms]
  have returned: "fst (uid_status cc apikey uid convert w) =
      Inr (JInt 100, JStr ''Success'', texts, locations)"
    if "decode_data d convert = Inr (texts, locations)" for texts locations
    unfolding run that by (simp add: and_then_def)
  have raised: "fst (uid_status cc apikey uid convert w) = Inl e"
    if "decode_data d convert = Inl e" for e
    unfolding run that by (simp add: and_then_def)
  have empty: "fst (uid_status cc apikey uid convert w) =
      Inr (JInt 100, JStr ''Success'', [], [])"
    if "d = JObj kvs
        \<and> (map_of kvs ''result'' = None
           \<or> (\<exists>res. map_of kvs ''result'' = Some (JObj res) \<and> map_of res ''pages'' = None))"
    for kvs
  proof -
    from that have "decode_data d convert = Inr ([], [])"
      using decode_data_no_pages [of kvs convert] by blast
    then show ?thesis by (rule returned)
  qed
  have pages: "fst (uid_status cc apikey uid convert w) =
      Inr (JInt 100, JStr ''Success'',
           map (\<lambda>s. JStr (if convert then convert_text s else s)) ss, map page_location ps)"
    if "py_getitem d ''result'' = Inr result
        \<and> py_getitem result ''pages'' = Inr (JList ps)
        \<and> list_all2 (\<lambda>p s. is_dict p \<and> page_md p = JStr s) ps ss"
    for result ps ss
  proof -
    from that have "decode_data d convert =
        Inr (map (\<lambda>s. JStr (if convert then convert_text s else s)) ss, map page_location ps)"
      using decode_data_decoded [of d result ps ss convert] by blast
    then show ?thesis by (rule returned)
  qed
  from returned raised empty pages show ?thesis by blast
qed

theorem uid_status_success_witness:
  "fst (uid_status accept_all ''k'' ''u1'' True
          (example_world 0 None
             [reply 200 (Some (status_body ''success''
                [(''result'', JObj [(''pages'', JList example_pages)])]))]))
     = Inr (JInt 100, JStr ''Success'', [JStr ''a$x$'', JStr ''$$y$$''],
            map page_location example_pages)
   \<and> fst (uid_status accept_all ''k'' ''u1'' False
          (example_world 0 None [reply 200 (Some (status_body ''success'' []))]))
     = Inr (JInt 100, JStr ''Success'', [], [])"
proof -
  let ?ss = "[CHR ''a'' # CHR 0x5C # ''(x'' @ CHR 0x5C # '')'', CHR 0x5C # ''[y'' @ CHR 0x5C # '']'']"
  let ?result = "JObj [(''pages'', JList example_pages)]"
  have h1: "pending (example_world 0 None [reply 200 (Some (status_body ''success'' extra))])
      = reply 200 (Some (status_body ''success'' extra)) # []" for extra
    by (simp add: example_world_def)
  have h2: "status_code (reply 200 (Some (status_body ''success'' extra))) = 200" for extra
    by (simp add: reply_def)
  have h3: "content_json (reply 200 (Some (status_body ''success'' extra)))
      = Some (status_body ''success'' extra)" for extra
    by (simp add: reply_def)
  have h4: "py_get_opt (status_body ''success'' extra) ''code'' = Inr (Some (JStr ''success''))"
    for extra
    by (simp add: py_get_opt_def status_body_def)
  have h5: "accept_all (case Some (JStr ''success'') of Some c \<Rightarrow> OfJson c
              | None \<Rightarrow> OfResponse (reply 200 (Some (status_body ''success'' extra)))) = None"
    for extra
    by (simp add: accept_all_def)
  have h6: "py_getitem (status_body ''success'' extra) ''data''
      = Inr (status_data ''success'' extra)" for extra
    by (simp add: py_getitem_def status_body_def)
  have h7: "py_get (status_data ''success'' extra) ''status'' (JStr '''')
      = Inr (JStr ''success'')" for extra
    by (simp add: py_get_def py_get_opt_def and_then_def status_data_def)
  have p1: "py_getitem (status_data ''success'' [(''result'', ?result)]) ''result''
      = Inr ?result"
    by (simp add: py_getitem_def status_data_def)
  have p2: "py_getitem ?result ''pages'' = Inr (JList example_pages)"
    by (simp add: py_getitem_def)
  have p3: "list_all2 (\<lambda>p s. is_dict p \<and> page_md p = JStr s) example_pages ?ss"
    by (simp add: example_pages_def is_dict_def page_md_def dict_get_def)
  have c: "map (\<lambda>s. JStr (if True then convert_text s else s)) ?ss
      = [JStr ''a$x$'', JStr ''$$y$$'']"
    by (simp add: convert_text_def)
  have e1: "status_data ''success'' [] =
      JObj [(''progress'', JInt 42), (''status'', JStr ''success'')]"
    by (simp add: status_data_def)
  have e2: "map_of [(''progress'', JInt 42), (''status'', JStr ''success'')] ''result'' = None"
    by simp
  from uid_status_success [where cc = accept_all and apikey = "''k''" and uid = "''u1''"
      and convert = True, OF h1 h2 h3 h4 h5 h6 h7] p1 p2 p3
  have a: "fst (uid_status accept_all ''k'' ''u1'' True
          (example_world 0 None
             [reply 200 (Some (status_body ''success'' [(''result'', ?result)]))]))
     = Inr (JInt 100, JStr ''Success'',
            map (\<lambda>s. JStr (if True then convert_text s else s)) ?ss,
            map page_location example_pages)"
    by blast
  from uid_status_success [where cc = accept_all and apikey = "''k''" and uid = "''u1''"
      and convert = False, OF h1 h2 h3 h4 h5 h6 h7, of "[]"] e1 e2
  have b: "fst (uid_status accept_all ''k'' ''u1'' False
          (example_world 0 None [reply 200 (Some (status_body ''success'' []))]))
     = Inr (JInt 100, JStr ''Success'', [], [])"
    by blast
  from a b show ?thesis unfolding c by blast
qed

text \<open>A success response whose \<^verbatim>\<open>result\<close> is \<^verbatim>\<open>None\<close>: the decoder raises \<^verbatim>\<open>TypeError\<close> at
  \<^verbatim>\<open>"pages" not in data["result"]\<close>, and so does the poller; no tuple is returned.\<close>

theorem uid_status_success_null_result:
  "fst (uid_status accept_all ''k'' ''u1'' False
          (example_world 0 None
             [reply 200 (Some (status_body ''success'' [(''result'', JNull)]))]))
     = Inl TypeError"
  by (simp add: uid_status_def http_send_def example_world_def reply_def status_body_def
      status_data_def accept_all_def run_check_def py_get_opt_def py_get_def py_getitem_def
      py_contains_def decode_data_def and_then_def)

section \<open>The path an upload takes\<close>

lemma upload_pdf_direct:
  assumes "getsize w pdffile = Inr sz" and "sz < 300 * 1024 * 1024"
    and "open_file w pdffile = Inr bytes"
  shows "new_requests w (snd (upload_pdf cc apikey pdffile ocr w)) =
           [parse_pdf_request apikey ocr bytes]"
  using assms
  by (simp add: upload_pdf_def http_send_def new_requests_def split: list.splits)

lemma upload_pdf_big_staged:
  assumes "getsize w pdffile = Inr sz" and "100 * 1024 * 1024 \<le> sz"
    and "open_file w pdffile = Inr bytes"
  shows "\<exists>rest. new_requests w (snd (upload_pdf_big cc apikey pdffile ocr w)) =
           preupload_request apikey pdffile ocr # rest
         \<and> (rest = [] \<or> (\<exists>u form. rest = [s3_request u form bytes]))"
  using assms
  by (auto simp: upload_pdf_big_def http_send_def new_requests_def
      split: list.splits option.splits sum.splits)

lemma request_kinds:
  "s3_request u form bytes \<noteq> parse_pdf_request apikey ocr bytes'"
  "s3_request u form bytes \<noteq> preupload_request apikey pdffile ocr"
  "preupload_request apikey pdffile ocr \<noteq> parse_pdf_request apikey' ocr' bytes'"
  by (simp_all add: s3_request_def parse_pdf_request_def preupload_request_def)

text \<open>
  Claim C1, as the code has it. \<^verbatim>\<open>upload_pdf\<close> sends every readable file below 300 MB by
  the direct path, at or above 100 MB as well as below: the one request it sends is the
  post to the parse endpoint, and none goes to the pre-upload endpoint. The staged path is
  taken by calling \<^verbatim>\<open>upload_pdf_big\<close>: on a readable file of at least 100 MB it sends the
  pre-upload request once, then at most the post to the object storage, and never the
  post to the parse endpoint.
\<close>

theorem upload_path_by_entry_point:
  assumes "getsize w pdffile = Inr sz" and "open_file w pdffile = Inr bytes"
  shows "(sz < 300 * 1024 * 1024 \<longrightarrow>
            new_requests w (snd (upload_pdf cc apikey pdffile ocr w)) =
              [parse_pdf_request apikey ocr bytes])
       \<and> (100 * 1024 * 1024 \<le> sz \<longrightarrow>
            (\<exists>rest. new_requests w (snd (upload_pdf_big cc apikey pdffile ocr w)) =
                      preupload_request apikey pdffile ocr # rest
                  \<and> (rest = [] \<or> (\<exists>u form. rest = [s3_request u form bytes]))
                  \<and> preupload_request apikey pdffile ocr \<notin> set rest
                  \<and> parse_pdf_request apikey ocr bytes \<notin> set rest))"
proof (intro conjI impI)
  assume "sz < 300 * 1024 * 1024"
  with assms show "new_requests w (snd (upload_pdf cc apikey pdffile ocr w)) =
      [parse_pdf_request apikey ocr bytes]"
    by (intro upload_pdf_direct)
next
  assume "100 * 1024 * 1024 \<le> sz"
  from upload_pdf_big_staged [OF assms(1) this assms(2)]
  obtain rest where rest:
    "new_requests w (snd (upload_pdf_big cc apikey pdffile ocr w)) =
       preupload_request apikey pdffile ocr # rest"
    "rest = [] \<or> (\<exists>u form. rest = [s3_request u form bytes])"
    by blast
  have "preupload_request apikey pdffile ocr \<notin> set rest
      \<and> parse_pdf_request apikey ocr bytes \<notin> set rest"
  proof (cases "rest = []")
    case True
    then show ?thesis by simp
  next
    case False
    with rest(2) obtain u form where "rest = [s3_request u form bytes]"
      by blast
    then show ?thesis
      using request_kinds(1) [of u form bytes apikey ocr bytes]
        request_kinds(2) [of u form bytes apikey pdffile ocr]
      by auto
  qed
  with rest show "\<exists>rest. new_requests w (snd (upload_pdf_big cc apikey pdffile ocr w)) =
                      preupload_request apikey pdffile ocr # rest
                  \<and> (rest = [] \<or> (\<exists>u form. rest = [s3_request u form bytes]))
                  \<and> preupload_request apikey pdffile ocr \<notin> set rest
                  \<and> parse_pdf_request apikey ocr bytes \<notin> set rest"
    by blast
qed

theorem upload_path_by_entry_point_witness:
  "getsize (example_world (150 * 1024 * 1024) (Some ''%PDF'') [upload_reply]) ''a.pdf''
     = Inr (150 * 1024 * 1024)
   \<and> open_file (example_world (150 * 1024 * 1024) (Some ''%PDF'') [upload_reply]) ''a.pdf''
     = Inr ''%PDF''
   \<and> new_requests (example_world (150 * 1024 * 1024) (Some ''%PDF'') [upload_reply])
        (snd (upload_pdf accept_all ''k'' ''a.pdf'' True
                (example_world (150 * 1024 * 1024) (Some ''%PDF'') [upload_reply])))
     = [parse_pdf_request ''k'' True ''%PDF'']
   \<and> (\<exists>rest. new_requests (example_world (150 * 1024 * 1024) (Some ''%PDF'') [upload_reply])
        (snd (upload_pdf_big accept_all ''k'' ''a.pdf'' True
                (example_world (150 * 1024 * 1024) (Some ''%PDF'') [upload_reply])))
     = preupload_request ''k'' ''a.pdf'' True # rest
       \<and> parse_pdf_request ''k'' True ''%PDF'' \<notin> set rest)"
proof -
  let ?w = "example_world (150 * 1024 * 1024) (Some ''%PDF'') [upload_reply]"
  have size: "getsize ?w ''a.pdf'' = Inr (150 * 1024 * 1024)"
    by (simp add: getsize_def example_world_def)
  have bytes: "open_file ?w ''a.pdf'' = Inr ''%PDF''"
    by (simp add: open_file_def example_world_def)
  have below: "(150 * 1024 * 1024 :: nat) < 300 * 1024 * 1024" by simp
  have above: "(100 * 1024 * 1024 :: nat) \<le> 150 * 1024 * 1024" by simp
  from upload_path_by_entry_point [OF size bytes, of accept_all "''k''" True] below above
    size bytes
  show ?thesis by blast
qed

text \<open>A readable file of 150 MB, between the two limits: \<^verbatim>\<open>upload_pdf\<close> posts it to the parse
  endpoint and returns the uid; nothing is sent to the pre-upload endpoint.\<close>

theorem upload_pdf_mid_size_direct:
  "getsize (example_world (150 * 1024 * 1024) (Some ''%PDF'') [upload_reply]) ''a.pdf''
     = Inr (150 * 1024 * 1024)
   \<and> (100 * 1024 * 1024 :: nat) \<le> 150 * 1024 * 1024
   \<and> (150 * 1024 * 1024 :: nat) < 300 * 1024 * 1024
   \<and> fst (upload_pdf accept_all ''k'' ''a.pdf'' True
            (example_world (150 * 1024 * 1024) (Some ''%PDF'') [upload_reply]))
     = Inr (JStr ''u1'')
   \<and> sent (snd (upload_pdf accept_all ''k'' ''a.pdf'' True
                  (example_world (150 * 1024 * 1024) (Some ''%PDF'') [upload_reply])))
     = [parse_pdf_request ''k'' True ''%PDF'']
   \<and> url (parse_pdf_request ''k'' True ''%PDF'') = Base_URL @ ''/v2/parse/pdf''"
  by (simp add: upload_pdf_def getsize_def open_file_def http_send_def example_world_def
      upload_reply_def reply_def accept_all_def run_check_def py_get_def py_get_opt_def
      py_getitem_def and_then_def parse_pdf_request_def)

section \<open>Rate limits and the retry policy\<close>







lemma upload_pdf_big_429:
  assumes "getsize w pdffile = Inr sz" and "100 * 1024 * 1024 \<le> sz"
    and "open_file w pdffile = Inr bytes" and "pending w = r # rs" and "status_code r = 429"
  shows "fst (upload_pdf_big cc apikey pdffile ocr w) =
           Inl (Exception [Lit ''Upload file error! '', Num 429, Lit '':'', Lit (resp_text r)])"
  using assms by (simp add: upload_pdf_big_def http_send_pending)








section \<open>The older client under a rate limit\<close>

lemma uuid2file_429:
  assumes "pending w = r # rs" and "status_code r = 429"
  shows "uuid2file deliver api_key uuid output_format output_path w =
           uuid2file deliver api_key uuid
             (if output_format = ''docx'' then ''docx'' else ''zip'') output_path
             (sleep 10 (sleep 10
                (w\<lparr>sent := sent w @ [export_request api_key uuid output_format],
                   pending := rs\<rparr>)))"
  using assms by (subst uuid2file.simps) (simp add: http_send_pending)

text \<open>As long as the service answers 429, \<^verbatim>\<open>uuid2file\<close> asks again: with \<open>n\<close> such answers
  it sends \<open>n + 1\<close> requests and sleeps \<open>2 n\<close> times; nothing in it counts the attempts.\<close>

lemma uuid2file_rate_limited:
  assumes "list_all (\<lambda>r. status_code r = 429) (pending w)"
  shows "fst (uuid2file deliver api_key uuid output_format output_path w) = Inl TransportError
       \<and> length (sent (snd (uuid2file deliver api_key uuid output_format output_path w)))
           = length (sent w) + length (pending w) + 1
       \<and> slept (snd (uuid2file deliver api_key uuid output_format output_path w))
           = slept w @ replicate (2 * length (pending w)) 10"
  using assms
proof (induction "pending w" arbitrary: w output_format)
  case Nil
  then have "pending w = []" by simp
  then show ?case
    by (subst (1 2 3) uuid2file.simps) (simp add: http_send_def)
next
  case (Cons r rs)
  from Cons.hyps(2) have p: "pending w = r # rs" by simp
  with Cons.prems have limited: "status_code r = 429"
    and rest: "list_all (\<lambda>r. status_code r = 429) rs"
    by simp_all
  let ?w = "sleep 10 (sleep 10
      (w\<lparr>sent := sent w @ [export_request api_key uuid output_format], pending := rs\<rparr>))"
  have next_pending: "rs = pending ?w"
    by (simp add: sleep_def)
  have "list_all (\<lambda>r. status_code r = 429) (pending ?w)"
    using rest by (simp add: sleep_def)
  from Cons.hyps(1) [OF next_pending this]
  show ?case
    unfolding uuid2file_429 [OF p limited]
    by (simp add: sleep_def p replicate_append_same [symmetric])
qed

end
